theory Spec2Isabelle
  imports Complex_Main "HOL-Library.Sublist" "HOL-Library.Log_Nat"
begin

section \<open>Data model of \<open>src/lib/classify.ts\<close>\<close>

text \<open>
  A JavaScript number is an IEEE 754 double. A finite double is modelled as the rational
  it denotes; comparisons, \<open>Math.max\<close> and \<open>Math.abs\<close> are exact on doubles, while a
  decimal literal and the result of a subtraction are rounded to the nearest double, ties
  to the even significand. \<open>to_double\<close> is that rounding: 53 significant bits, the
  exponent of the last place not below \<open>-1074\<close>. Infinities and NaN are not modelled:
  a resolved score is never NaN, since \<open>NaN || 0.0\<close> is \<open>0.0\<close>, and the scores of a
  classifier and the readings of a clock are far from the overflow threshold.
\<close>

type_synonym number = rat

definition round_half_even :: "rat \<Rightarrow> int" where
  "round_half_even q =
     (let f = \<lfloor>q\<rfloor>; d = q - of_int f
      in if d < 1 / 2 then f else if 1 / 2 < d then f + 1 else if even f then f else f + 1)"

text \<open>The binary exponent of a non-zero rational: \<open>2 powi e \<le> \<bar>x\<bar> < 2 powi (e + 1)\<close>.\<close>

definition exponent :: "rat \<Rightarrow> int" where
  "exponent x =
     (let c = bitlen (fst (quotient_of \<bar>x\<bar>)) - bitlen (snd (quotient_of \<bar>x\<bar>))
      in if 2 powi c \<le> \<bar>x\<bar> then c else c - 1)"

definition to_double :: "rat \<Rightarrow> number" where
  "to_double x =
     (if x = 0 then 0
      else (let ulp = 2 powi (max (exponent x) (- 1022) - 52)
            in of_int (round_half_even (x / ulp)) * ulp))"

text \<open>The numbers a program can hold are those that rounding leaves alone.\<close>

definition is_double :: "rat \<Rightarrow> bool" where
  "is_double x = (to_double x = x)"

text \<open>The JavaScript \<open>a - b\<close>.\<close>

definition fsub :: "number \<Rightarrow> number \<Rightarrow> number" where
  "fsub a b = to_double (a - b)"

text \<open>
  Labels are strings of 8-bit characters; \<open>toLowerCase\<close> acts on the letters A to Z.
  A label may be missing at run time (the source reads it through \<open>?.\<close>), so it is
  optional; the entries of a result array have the shape the source declares for them.
\<close>

record raw_result =
  label :: "string option"
  score :: number

record decision =
  isMeme :: bool
  confidence :: number

definition lower_char :: "char \<Rightarrow> char" where
  "lower_char c =
     (let n = (of_char c :: nat) in if 65 \<le> n \<and> n \<le> 90 then char_of (n + 32) else c)"

definition toLowerCase :: "string \<Rightarrow> string" where
  "toLowerCase s = map lower_char s"

text \<open>\<open>s.includes(sub)\<close>: \<open>sub\<close> occurs in \<open>s\<close> as a contiguous substring.\<close>

fun str_includes :: "string \<Rightarrow> string \<Rightarrow> bool" where
  "str_includes [] sub = (sub = [])"
| "str_includes (c # cs) sub = (prefix sub (c # cs) \<or> str_includes cs sub)"

section \<open>The decision algorithm\<close>

text \<open>The callback of the first \<open>results.find\<close>; a missing label makes the chain falsy.\<close>

definition isMemeLabel :: "raw_result \<Rightarrow> bool" where
  "isMemeLabel result =
     (case label result of
        None \<Rightarrow> False
      | Some l \<Rightarrow> str_includes (toLowerCase l) ''meme'' \<and> \<not> str_includes (toLowerCase l) ''not'')"

text \<open>The callback of the second \<open>results.find\<close>.\<close>

definition isNotMemeLabel :: "raw_result \<Rightarrow> bool" where
  "isNotMemeLabel result =
     (case label result of
        None \<Rightarrow> False
      | Some l \<Rightarrow> str_includes (toLowerCase l) ''not meme'' \<or>
          (str_includes (toLowerCase l) ''meme'' \<and> str_includes (toLowerCase l) ''not''))"

text \<open>\<open>x?.score || 0.0\<close>: an absent entry and a falsy score both give \<open>0.0\<close>.\<close>

definition score_or_zero :: "raw_result option \<Rightarrow> number" where
  "score_or_zero r = (case r of None \<Rightarrow> 0 | Some x \<Rightarrow> if score x = 0 then 0 else score x)"

definition memeScore :: "raw_result list \<Rightarrow> number" where
  "memeScore results = score_or_zero (find isMemeLabel results)"

definition notMemeScore :: "raw_result list \<Rightarrow> number" where
  "notMemeScore results = score_or_zero (find isNotMemeLabel results)"

definition highConfidenceThreshold :: number where
  "highConfidenceThreshold = to_double 0.8"

definition lowConfidenceThreshold :: number where
  "lowConfidenceThreshold = to_double 0.6"

definition smallMarginThreshold :: number where
  "smallMarginThreshold = to_double 0.3"

definition determineMemeClassification :: "raw_result list \<Rightarrow> decision" where
  "determineMemeClassification results =
     (let winnerScore = max (memeScore results) (notMemeScore results);
          margin = \<bar>fsub (memeScore results) (notMemeScore results)\<bar>;
          memeIsWinner = (memeScore results > notMemeScore results)
      in \<lparr> isMeme =
             (if winnerScore \<ge> highConfidenceThreshold then memeIsWinner
              else if winnerScore < lowConfidenceThreshold then True
              else if margin < smallMarginThreshold then True
              else memeIsWinner),
           confidence = memeScore results \<rparr>)"

section \<open>Module state, the runtime and the inference backend\<close>

text \<open>
  The module keeps two variables, \<open>classifier\<close> and \<open>modelStatus\<close>. Everything outside the
  module is the world: the clock read by \<open>performance.now()\<close> and the calls made so far to
  \<open>pipeline\<close> and to the loaded classifier. The backend is a parameter: what each call
  answers may depend on the world at the time of the call. Logging has no effect on the
  results and is left out.
\<close>

datatype device = WebGPU | Wasm

type_synonym handle = nat

datatype model_status = Loading | Downloading | Ready | Error

datatype exn = JsError string

record ClassificationResult = decision +
  inferenceTimeMs :: number

record module_state =
  classifier :: "handle option"
  modelStatus :: model_status

record world =
  clock :: number
  acquisitions :: "device list"
  inferences :: "string list"

text \<open>What \<open>await classifier(imageUrl)\<close> can yield when it does not throw.\<close>

datatype js_value = Absent | NotArray | Array "raw_result list"

text \<open>
  A promise is given by how it settles: rejected with an exception (\<open>Inl\<close>) or fulfilled
  with a value (\<open>Inr\<close>), and the clock reading at that moment.
\<close>

type_synonym 'a promise = "(exn + 'a) \<times> number"

record backend =
  pipeline :: "device \<Rightarrow> world \<Rightarrow> handle promise"
  invoke :: "handle \<Rightarrow> string \<Rightarrow> world \<Rightarrow> js_value promise"
  fault :: "world \<Rightarrow> exn option"

text \<open>\<open>await p\<close>: the caller resumes with the settled value once the promise has settled.\<close>

definition await :: "'a promise \<Rightarrow> world \<Rightarrow> (exn + 'a) \<times> world" where
  "await p w = (fst p, w\<lparr>clock := max (clock w) (snd p)\<rparr>)"

definition HUGGINGFACE_MODEL :: string where
  "HUGGINGFACE_MODEL = ''prettyirrelevant/meme-detector-onnx''"

text \<open>The two errors the module throws, named as the specification names them.\<close>

definition ModelLoadError :: exn where
  "ModelLoadError = JsError (''unable to load model: '' @ HUGGINGFACE_MODEL)"

definition ModelNotLoadedError :: exn where
  "ModelNotLoadedError = JsError ''model not loaded. call loadModel() first.''"

fun message :: "exn \<Rightarrow> string" where
  "message (JsError msg) = msg"

section \<open>Model lifecycle\<close>

definition loadModel ::
  "backend \<Rightarrow> module_state \<Rightarrow> world \<Rightarrow> (exn + unit) \<times> module_state \<times> world" where
  "loadModel env m w =
     (case classifier m of
        Some h \<Rightarrow> (Inr (), m\<lparr>modelStatus := Ready\<rparr>, w)
      | None \<Rightarrow>
          (let m1 = m\<lparr>modelStatus := Downloading\<rparr>;
               w1 = w\<lparr>acquisitions := acquisitions w @ [WebGPU]\<rparr>;
               (r1, w2) = await (pipeline env WebGPU w1) w1
           in case r1 of
                Inr h \<Rightarrow> (Inr (), m1\<lparr>classifier := Some h, modelStatus := Ready\<rparr>, w2)
              | Inl webgpuError \<Rightarrow>
                  (let w3 = w2\<lparr>acquisitions := acquisitions w2 @ [Wasm]\<rparr>;
                       (r2, w4) = await (pipeline env Wasm w3) w3
                   in case r2 of
                        Inr h \<Rightarrow> (Inr (), m1\<lparr>classifier := Some h, modelStatus := Ready\<rparr>, w4)
                      | Inl error \<Rightarrow> (Inl ModelLoadError, m1\<lparr>modelStatus := Error\<rparr>, w4))))"

definition getModelStatus :: "module_state \<Rightarrow> model_status" where
  "getModelStatus m = modelStatus m"

definition isModelReady :: "module_state \<Rightarrow> bool" where
  "isModelReady m = (classifier m \<noteq> None \<and> modelStatus m = Ready)"

section \<open>Classification\<close>

text \<open>
  An \<open>async\<close> function runs up to its first \<open>await\<close> and hands back a promise: the model
  returns the promise together with the world as that synchronous part leaves it.
\<close>

definition classifyImage ::
  "backend \<Rightarrow> module_state \<Rightarrow> world \<Rightarrow> string \<Rightarrow> ClassificationResult promise \<times> world" where
  "classifyImage env m w imageUrl =
     (case classifier m of
        None \<Rightarrow> ((Inl ModelNotLoadedError, clock w), w)
      | Some h \<Rightarrow>
          (let startTimeMs = clock w;
               w1 = w\<lparr>inferences := inferences w @ [imageUrl]\<rparr>;
               (r, t) = invoke env h imageUrl w1;
               inferenceTimeMs = fsub t startTimeMs
           in ((Inr (case r of
                       Inl error \<Rightarrow>
                         \<lparr>isMeme = False, confidence = 0, inferenceTimeMs = inferenceTimeMs\<rparr>
                     | Inr NotArray \<Rightarrow>
                         \<lparr>isMeme = False, confidence = 0, inferenceTimeMs = inferenceTimeMs\<rparr>
                     | Inr Absent \<Rightarrow>
                         \<lparr>isMeme = False, confidence = 0, inferenceTimeMs = inferenceTimeMs\<rparr>
                     | Inr (Array results) \<Rightarrow>
                         (if length results = 0
                          then \<lparr>isMeme = False, confidence = 0, inferenceTimeMs = inferenceTimeMs\<rparr>
                          else \<lparr>isMeme = isMeme (determineMemeClassification results),
                                 confidence = confidence (determineMemeClassification results),
                                 inferenceTimeMs = inferenceTimeMs\<rparr>)), t), w1)))"

text \<open>\<open>imageUrls.map(url => classifyImage(url))\<close>: the calls start in input order.\<close>

fun map_classifyImage ::
  "backend \<Rightarrow> module_state \<Rightarrow> world \<Rightarrow> string list
     \<Rightarrow> ClassificationResult promise list \<times> world" where
  "map_classifyImage env m w [] = ([], w)"
| "map_classifyImage env m w (url # urls) =
     (let (p, w1) = classifyImage env m w url;
          (ps, w2) = map_classifyImage env m w1 urls
      in (p # ps, w2))"

text \<open>
  \<open>Promise.all\<close>: rejected with the reason of the promise that rejects first, otherwise
  fulfilled, when the last promise has settled, with the values in the order of the
  promises.
\<close>

fun first_rejection :: "'a promise list \<Rightarrow> (exn \<times> number) option" where
  "first_rejection [] = None"
| "first_rejection ((Inr v, t) # ps) = first_rejection ps"
| "first_rejection ((Inl e, t) # ps) =
     (case first_rejection ps of
        None \<Rightarrow> Some (e, t)
      | Some (e', t') \<Rightarrow> if t' < t then Some (e', t') else Some (e, t))"

fun fulfilled_values :: "'a promise list \<Rightarrow> 'a list" where
  "fulfilled_values [] = []"
| "fulfilled_values ((Inr v, t) # ps) = v # fulfilled_values ps"
| "fulfilled_values ((Inl e, t) # ps) = fulfilled_values ps"

definition promise_all :: "'a promise list \<Rightarrow> number \<Rightarrow> 'a list promise" where
  "promise_all ps now =
     (case first_rejection ps of
        Some (e, t) \<Rightarrow> (Inl e, t)
      | None \<Rightarrow> (Inr (fulfilled_values ps), fold max (map snd ps) now))"

text \<open>
  The \<open>try\<close> block of the batch awaits \<open>Promise.all\<close>; \<open>fault\<close> stands for an exception
  that the runtime raises inside the block on its own account.
\<close>

definition classifyImageBatch ::
  "backend \<Rightarrow> module_state \<Rightarrow> world \<Rightarrow> string list
     \<Rightarrow> ClassificationResult list promise \<times> world" where
  "classifyImageBatch env m w imageUrls =
     (case classifier m of
        None \<Rightarrow> ((Inl ModelNotLoadedError, clock w), w)
      | Some h \<Rightarrow>
          if length imageUrls = 0 then ((Inr [], clock w), w)
          else
            (let (classificationPromises, w1) = map_classifyImage env m w imageUrls;
                 (r, t) = promise_all classificationPromises (clock w)
             in case (case fault env w1 of Some e \<Rightarrow> Inl e | None \<Rightarrow> r) of
                  Inr results \<Rightarrow> ((Inr results, t), w1)
                | Inl error \<Rightarrow>
                    ((Inr (map (\<lambda>u. \<lparr>isMeme = False, confidence = 0, inferenceTimeMs = 0\<rparr>)
                             imageUrls), t), w1)))"

section \<open>The specification's decision rule and the load attempts\<close>

text \<open>
  The rule as the specification words it, on the two resolved scores: winner at least
  0.8, trust the winner; else winner below 0.6, meme; else margin below 0.3, meme; else
  trust the winner. The margin is the absolute difference of the scores, not rounded;
  0.8, 0.6 and 0.3 are the doubles these literals denote, the values a score can be
  equal to.
\<close>

definition three_branch_rule :: "number \<Rightarrow> number \<Rightarrow> bool" where
  "three_branch_rule m n =
     (if max m n \<ge> to_double 0.8 then m > n
      else if max m n < to_double 0.6 then True
      else if \<bar>m - n\<bar> < to_double 0.3 then True
      else m > n)"

text \<open>
  The promise of the accelerated attempt that \<open>loadModel\<close> makes when started in world
  \<open>w\<close>, and the promise of the fallback attempt that follows its rejection.
\<close>

definition webgpu_attempt :: "backend \<Rightarrow> world \<Rightarrow> handle promise" where
  "webgpu_attempt env w = pipeline env WebGPU (w\<lparr>acquisitions := acquisitions w @ [WebGPU]\<rparr>)"

definition wasm_attempt :: "backend \<Rightarrow> world \<Rightarrow> handle promise" where
  "wasm_attempt env w =
     (let w1 = w\<lparr>acquisitions := acquisitions w @ [WebGPU]\<rparr>;
          w2 = snd (await (pipeline env WebGPU w1) w1)
      in pipeline env Wasm (w2\<lparr>acquisitions := acquisitions w2 @ [Wasm]\<rparr>))"

definition both_attempts_fail :: "backend \<Rightarrow> module_state \<Rightarrow> world \<Rightarrow> bool" where
  "both_attempts_fail env m w =
     (classifier m = None \<and> isl (fst (webgpu_attempt env w)) \<and> isl (fst (wasm_attempt env w)))"

text \<open>The world in which the \<open>i\<close>-th call of a batch starts: the calls before it are made.\<close>

definition world_at :: "world \<Rightarrow> string list \<Rightarrow> nat \<Rightarrow> world" where
  "world_at w urls i = w\<lparr>inferences := inferences w @ take i urls\<rparr>"

section \<open>Concrete backends and states for the examples\<close>

definition meme_entry :: "number \<Rightarrow> raw_result" where
  "meme_entry s = \<lparr>label = Some ''meme'', score = s\<rparr>"

definition not_meme_entry :: "number \<Rightarrow> raw_result" where
  "not_meme_entry s = \<lparr>label = Some ''not meme'', score = s\<rparr>"

text \<open>
  No accelerated device, a working fallback; image \<open>a\<close> makes the classifier throw,
  \<open>b\<close> is scored 0.63 against 0.37, \<open>c\<close> yields nothing, \<open>d\<close> yields a non-array,
  \<open>e\<close> an empty array, \<open>f\<close> only a not-meme entry.
\<close>

definition demo_scores :: "raw_result list" where
  "demo_scores = [meme_entry (to_double 0.63), not_meme_entry (to_double 0.37)]"

definition demo_invoke :: "handle \<Rightarrow> string \<Rightarrow> world \<Rightarrow> js_value promise" where
  "demo_invoke h url w =
     (if url = ''a'' then (Inl (JsError ''decode failed''), clock w + 3)
      else if url = ''b'' then (Inr (Array demo_scores), clock w + 2)
      else if url = ''c'' then (Inr Absent, clock w + 1)
      else if url = ''d'' then (Inr NotArray, clock w + 1)
      else if url = ''e'' then (Inr (Array []), clock w + 1)
      else (Inr (Array [not_meme_entry (to_double 0.75)]), clock w + 4))"

definition demo_pipeline :: "device \<Rightarrow> world \<Rightarrow> handle promise" where
  "demo_pipeline d w =
     (case d of
        WebGPU \<Rightarrow> (Inl (JsError ''no adapter''), clock w + 5)
      | Wasm \<Rightarrow> (Inr 7, clock w + 7))"

definition demo_backend :: backend where
  "demo_backend = \<lparr>pipeline = demo_pipeline, invoke = demo_invoke, fault = (\<lambda>w. None)\<rparr>"

definition faulty_backend :: backend where
  "faulty_backend =
     \<lparr>pipeline = demo_pipeline, invoke = demo_invoke,
      fault = (\<lambda>w. Some (JsError ''out of memory''))\<rparr>"

definition dead_backend :: backend where
  "dead_backend =
     \<lparr>pipeline = (\<lambda>d w. (Inl (JsError ''offline''), clock w + 9)), invoke = demo_invoke,
      fault = (\<lambda>w. None)\<rparr>"

definition initial_module :: module_state where
  "initial_module = \<lparr>classifier = None, modelStatus = Loading\<rparr>"

definition failed_module :: module_state where
  "failed_module = \<lparr>classifier = None, modelStatus = Error\<rparr>"

definition loaded_module :: module_state where
  "loaded_module = \<lparr>classifier = Some 7, modelStatus = Ready\<rparr>"

definition initial_world :: world where
  "initial_world = \<lparr>clock = 0, acquisitions = [], inferences = []\<rparr>"

section \<open>Properties of the rounding to doubles\<close>

lemma pos_rat_bitlen_bounds:
  fixes y :: rat
  assumes "0 < y"
  defines "c \<equiv> bitlen (fst (quotient_of y)) - bitlen (snd (quotient_of y))"
  shows "2 powi (c - 1) \<le> y" and "y < 2 powi (c + 1)"
proof -
  obtain p q where pq: "quotient_of y = (p, q)" by (cases "quotient_of y")
  then have q: "0 < q" by (rule quotient_of_denom_pos)
  from pq have y: "y = of_int p / of_int q" by (rule quotient_of_div)
  with assms(1) q have p: "0 < p" by (simp add: zero_less_divide_iff)
  let ?a = "bitlen p" and ?b = "bitlen q"
  have a1: "1 \<le> ?a" and b1: "1 \<le> ?b"
    using p q bitlen_eq_zero_iff [of p] bitlen_eq_zero_iff [of q] bitlen_nonneg [of p]
      bitlen_nonneg [of q] by linarith+
  have c: "c = ?a - ?b" by (simp add: c_def pq)
  from bitlen_bounds [OF p] have pl: "(2::rat) ^ nat (?a - 1) \<le> of_int p"
    and pu: "of_int p < (2::rat) ^ nat ?a"
    by (metis of_int_le_iff of_int_numeral of_int_power,
        metis of_int_less_iff of_int_numeral of_int_power)
  from bitlen_bounds [OF q] have ql: "(2::rat) ^ nat (?b - 1) \<le> of_int q"
    and qu: "of_int q < (2::rat) ^ nat ?b"
    by (metis of_int_le_iff of_int_numeral of_int_power,
        metis of_int_less_iff of_int_numeral of_int_power)
  have n: "(2::rat) powi (?a - 1) = 2 ^ nat (?a - 1)" "(2::rat) powi ?b = 2 ^ nat ?b"
    "(2::rat) powi ?a = 2 ^ nat ?a" "(2::rat) powi (?b - 1) = 2 ^ nat (?b - 1)"
    using a1 b1 by (simp_all add: power_int_def)
  have "c - 1 = (?a - 1) - ?b" "c + 1 = ?a - (?b - 1)"
    by (simp_all add: c)
  then have "(2::rat) powi (c - 1) = 2 powi (?a - 1) / 2 powi ?b"
    and "(2::rat) powi (c + 1) = 2 powi ?a / 2 powi (?b - 1)"
    by (simp_all only: power_int_diff [of "2::rat", simplified])
  then have e1: "(2::rat) powi (c - 1) = 2 ^ nat (?a - 1) / 2 ^ nat ?b"
    and e2: "(2::rat) powi (c + 1) = 2 ^ nat ?a / 2 ^ nat (?b - 1)"
    by (simp_all only: n)
  have "(2::rat) ^ nat (?a - 1) / 2 ^ nat ?b \<le> of_int p / of_int q"
    using pl qu p q by (intro frac_le) simp_all
  then show "2 powi (c - 1) \<le> y" by (simp add: e1 y)
  have "of_int p / of_int q < (2::rat) ^ nat ?a / 2 ^ nat (?b - 1)"
    using pu ql p q by (intro frac_less) simp_all
  then show "y < 2 powi (c + 1)" by (simp add: e2 y)
qed

lemma exponent_lower: "x \<noteq> 0 \<Longrightarrow> 2 powi (exponent x) \<le> \<bar>x\<bar>"
  using pos_rat_bitlen_bounds(1) [of "\<bar>x\<bar>"] by (simp add: exponent_def Let_def)

lemma exponent_upper: "x \<noteq> 0 \<Longrightarrow> \<bar>x\<bar> < 2 powi (exponent x + 1)"
  using pos_rat_bitlen_bounds(2) [of "\<bar>x\<bar>"] by (auto simp add: exponent_def Let_def not_le)

lemma pow2_less_imp: "(2::rat) powi a < 2 powi b \<Longrightarrow> a < b"
  using power_int_increasing [of b a "2::rat"] by (cases "a < b") auto

lemma pow2_split: "a \<le> b \<Longrightarrow> (2::rat) powi b = of_int (2 ^ nat (b - a)) * 2 powi a"
proof -
  assume "a \<le> b"
  then have "(2::rat) powi (b - a) = 2 ^ nat (b - a)"
    by (simp add: power_int_def)
  moreover have "(2::rat) powi b = 2 powi (b - a) * 2 powi a"
    using power_int_add [of "2::rat" "b - a" a] by simp
  ultimately show ?thesis by simp
qed

lemma round_half_even_int: "round_half_even (of_int k) = k"
  by (simp add: round_half_even_def)

lemma round_half_even_ge: "of_int k \<le> q \<Longrightarrow> k \<le> round_half_even q"
proof -
  assume "of_int k \<le> q"
  then have "k \<le> \<lfloor>q\<rfloor>" by (simp add: le_floor_iff)
  moreover have "\<lfloor>q\<rfloor> \<le> round_half_even q"
    by (simp add: round_half_even_def Let_def)
  ultimately show ?thesis by simp
qed

lemma round_half_even_le: "q \<le> of_int k \<Longrightarrow> round_half_even q \<le> k"
proof -
  assume a: "q \<le> of_int k"
  then have f: "\<lfloor>q\<rfloor> \<le> k" by (simp add: floor_le_iff)
  show ?thesis
  proof (cases "\<lfloor>q\<rfloor> = k")
    case True
    with a have "q = of_int \<lfloor>q\<rfloor>"
      using of_int_floor_le [of q] by simp
    then have "round_half_even q = \<lfloor>q\<rfloor>"
      by (metis round_half_even_int)
    with True show ?thesis by simp
  next
    case False
    with f have "\<lfloor>q\<rfloor> + 1 \<le> k" by simp
    moreover have "round_half_even q \<le> \<lfloor>q\<rfloor> + 1"
      by (simp add: round_half_even_def Let_def)
    ultimately show ?thesis by simp
  qed
qed

lemma to_double_unfold:
  "x \<noteq> 0 \<Longrightarrow> to_double x =
     of_int (round_half_even (x / 2 powi (max (exponent x) (- 1022) - 52)))
       * 2 powi (max (exponent x) (- 1022) - 52)"
  by (simp add: to_double_def Let_def)

text \<open>Rounding never crosses a representable number.\<close>

lemma scaled_round_ge:
  assumes u: "(0::rat) < u" and b: "of_int n * u \<le> x"
  shows "of_int n * u \<le> of_int (round_half_even (x / u)) * u"
proof -
  from b u have "of_int n \<le> x / u" by (simp add: pos_le_divide_eq)
  then have "n \<le> round_half_even (x / u)" by (rule round_half_even_ge)
  then have "(of_int n :: rat) \<le> of_int (round_half_even (x / u))" by simp
  with u show ?thesis by (simp only: mult_le_cancel_right_pos)
qed

lemma scaled_round_le:
  assumes u: "(0::rat) < u" and b: "x \<le> of_int n * u"
  shows "of_int (round_half_even (x / u)) * u \<le> of_int n * u"
proof -
  from b u have "x / u \<le> of_int n" by (simp add: pos_divide_le_eq)
  then have "round_half_even (x / u) \<le> n" by (rule round_half_even_le)
  then have "(of_int (round_half_even (x / u)) :: rat) \<le> of_int n" by simp
  with u show ?thesis by (simp only: mult_le_cancel_right_pos)
qed

lemma representable_below_pow2:
  assumes k: "0 < k" "k < 2 ^ 53" and je: "j \<le> e - 53"
  shows "of_int k * (2::rat) powi j \<le> of_int (2 ^ 52) * 2 powi (e - 52)"
proof -
  have "(2::rat) powi j \<le> 2 powi (e - 53)"
    using je by (intro power_int_increasing) simp_all
  moreover have "(2::rat) powi (e - 52) = 2 * 2 powi (e - 53)"
    using pow2_split [of "e - 53" "e - 52"] by simp
  moreover have "of_int k \<le> (2::rat) ^ 53"
    using k(2) by (metis less_imp_le of_int_le_iff of_int_numeral of_int_power)
  ultimately have "of_int k * (2::rat) powi j \<le> 2 ^ 53 * 2 powi (e - 53)"
    using k(1) by (intro mult_mono) simp_all
  also have "\<dots> = of_int (2 ^ 52) * 2 powi (e - 52)"
    using \<open>(2::rat) powi (e - 52) = 2 * 2 powi (e - 53)\<close> by simp
  finally show ?thesis .
qed

lemma to_double_ge:
  assumes k: "0 < k" "k < 2 ^ 53" and j: "- 1074 \<le> j"
    and x: "of_int k * 2 powi j \<le> x"
  shows "of_int k * 2 powi j \<le> to_double x"
proof -
  define e where "e = max (exponent x) (- 1022)"
  define u where "u = (2::rat) powi (e - 52)"
  have u: "0 < u" by (simp add: u_def)
  have "0 < of_int k * (2::rat) powi j" using k by simp
  with x have x0: "0 < x" by simp
  have td: "to_double x = of_int (round_half_even (x / u)) * u"
    using x0 by (simp add: to_double_unfold u_def e_def)
  show ?thesis
  proof (cases "e - 52 \<le> j")
    case True
    define n where "n = k * 2 ^ nat (j - (e - 52))"
    have "(2::rat) powi j = of_int (2 ^ nat (j - (e - 52))) * u"
      unfolding u_def using True by (rule pow2_split)
    then have B: "of_int k * (2::rat) powi j = of_int n * u"
      by (simp add: n_def)
    with x have "of_int n * u \<le> x" by simp
    from scaled_round_ge [OF u this] show ?thesis by (simp only: td B)
  next
    case False
    then have e: "e = exponent x" and je: "j \<le> e - 53"
      using j by (simp_all add: e_def)
    from exponent_lower [of x] x0 e have "2 powi e \<le> x" by simp
    moreover have "(2::rat) powi e = of_int (2 ^ 52) * u"
      unfolding u_def using pow2_split [of "e - 52" e] by simp
    ultimately have "of_int (2 ^ 52) * u \<le> x" by simp
    from scaled_round_ge [OF u this] have "of_int (2 ^ 52) * u \<le> to_double x"
      by (simp only: td)
    moreover have "of_int k * (2::rat) powi j \<le> of_int (2 ^ 52) * u"
      unfolding u_def using k je by (rule representable_below_pow2)
    ultimately show ?thesis by linarith
  qed
qed

lemma to_double_le:
  assumes k: "0 < k" "k < 2 ^ 53" and j: "- 1074 \<le> j"
    and x: "x \<le> - (of_int k * 2 powi j)"
  shows "to_double x \<le> - (of_int k * 2 powi j)"
proof -
  define e where "e = max (exponent x) (- 1022)"
  define u where "u = (2::rat) powi (e - 52)"
  have u: "0 < u" by (simp add: u_def)
  have "0 < of_int k * (2::rat) powi j" using k by simp
  with x have x0: "x < 0" by simp
  have td: "to_double x = of_int (round_half_even (x / u)) * u"
    using x0 by (simp add: to_double_unfold u_def e_def)
  show ?thesis
  proof (cases "e - 52 \<le> j")
    case True
    define n where "n = - (k * 2 ^ nat (j - (e - 52)))"
    have "(2::rat) powi j = of_int (2 ^ nat (j - (e - 52))) * u"
      unfolding u_def using True by (rule pow2_split)
    then have B: "- (of_int k * (2::rat) powi j) = of_int n * u"
      by (simp add: n_def)
    with x have "x \<le> of_int n * u" by simp
    from scaled_round_le [OF u this] show ?thesis by (simp only: td B)
  next
    case False
    then have e: "e = exponent x" and je: "j \<le> e - 53"
      using j by (simp_all add: e_def)
    from exponent_lower [of x] x0 e have "2 powi e \<le> - x" by simp
    moreover have "(2::rat) powi e = of_int (2 ^ 52) * u"
      unfolding u_def using pow2_split [of "e - 52" e] by simp
    ultimately have "x \<le> of_int (- (2 ^ 52)) * u" by simp
    from scaled_round_le [OF u this] have "to_double x \<le> of_int (- (2 ^ 52)) * u"
      by (simp only: td)
    moreover have "of_int k * (2::rat) powi j \<le> of_int (2 ^ 52) * u"
      unfolding u_def using k je by (rule representable_below_pow2)
    ultimately show ?thesis by simp
  qed
qed

text \<open>A number on the grid of its binade is its own rounding.\<close>

lemma to_double_exact:
  assumes m: "\<bar>m\<bar> < 2 ^ 53" and j: "- 1074 \<le> j"
  shows "to_double (of_int m * 2 powi j) = of_int m * 2 powi j"
proof (cases "m = 0")
  case True
  then show ?thesis by (simp add: to_double_def)
next
  case False
  define x where "x = of_int m * (2::rat) powi j"
  define e where "e = max (exponent x) (- 1022)"
  define u where "u = (2::rat) powi (e - 52)"
  have x0: "x \<noteq> 0" using False by (simp add: x_def)
  have u: "0 < u" by (simp add: u_def)
  have "(of_int \<bar>m\<bar> :: rat) < 2 ^ 53"
    using m by (metis of_int_less_iff of_int_numeral of_int_power)
  then have "\<bar>x\<bar> < 2 ^ 53 * 2 powi j"
    by (simp add: x_def abs_mult)
  also have "\<dots> = 2 powi (j + 53)"
    using pow2_split [of j "j + 53"] by simp
  finally have "(2::rat) powi (exponent x) < 2 powi (j + 53)"
    using exponent_lower [OF x0] by linarith
  then have "exponent x < j + 53" by (rule pow2_less_imp)
  with j have ej: "e - 52 \<le> j" by (simp add: e_def)
  define n where "n = m * 2 ^ nat (j - (e - 52))"
  have "(2::rat) powi j = of_int (2 ^ nat (j - (e - 52))) * u"
    unfolding u_def using ej by (rule pow2_split)
  then have xn: "x = of_int n * u" by (simp add: x_def n_def)
  with u have "x / u = of_int n" by simp
  then have "round_half_even (x / u) = n" by (simp only: round_half_even_int)
  moreover have "to_double x = of_int (round_half_even (x / u)) * u"
    using x0 by (simp add: to_double_unfold u_def e_def)
  ultimately have "to_double x = x" by (simp add: xn)
  then show ?thesis by (simp only: x_def)
qed

lemma threshold_values:
  "highConfidenceThreshold = of_int 3602879701896397 * 2 powi (- 52)"
  "lowConfidenceThreshold = of_int 5404319552844595 * 2 powi (- 53)"
  "smallMarginThreshold = of_int 5404319552844595 * 2 powi (- 54)"
  by code_simp+

lemma threshold_order:
  "1 / 4 < smallMarginThreshold" "smallMarginThreshold < 1 / 2"
  "lowConfidenceThreshold = 2 * smallMarginThreshold"
  "lowConfidenceThreshold < highConfidenceThreshold" "highConfidenceThreshold < 1"
  by code_simp+

lemma double_grid:
  assumes d: "is_double x" and l: "1 / 4 < x" and h: "x < 1"
  shows "\<exists>i. x = of_int i * 2 powi (- 54)"
proof -
  have x0: "x \<noteq> 0" using l by simp
  have "(2::rat) powi (exponent x) < 2 powi 0"
    using exponent_lower [OF x0] l h by simp
  then have e0: "exponent x < 0" by (rule pow2_less_imp)
  have "(2::rat) powi (- 2) < 2 powi (exponent x + 1)"
    using exponent_upper [OF x0] l by (simp add: power_int_minus)
  then have e2: "- 2 < exponent x + 1" by (rule pow2_less_imp)
  from e0 e2 have e: "exponent x = - 2 \<or> exponent x = - 1" by linarith
  define r where "r = round_half_even (x / 2 powi (max (exponent x) (- 1022) - 52))"
  from d x0 have x: "x = of_int r * 2 powi (max (exponent x) (- 1022) - 52)"
    unfolding r_def is_double_def by (simp only: to_double_unfold [OF x0, symmetric])
  from e show ?thesis
  proof
    assume "exponent x = - 2"
    with x have "x = of_int r * 2 powi (- 54)" by simp
    then show ?thesis ..
  next
    assume "exponent x = - 1"
    with x have "x = of_int r * 2 powi (- 53)" by simp
    also have "(2::rat) powi (- 53) = of_int (2 ^ nat 1) * 2 powi (- 54)"
      using pow2_split [of "- 54" "- 53"] by simp
    finally have "x = of_int (r * 2) * 2 powi (- 54)" by simp
    then show ?thesis ..
  qed
qed

lemma fsub_exact:
  assumes "is_double m" "is_double n" "1 / 4 < m" "m < 1" "1 / 4 < n" "n < 1"
    and "\<bar>m - n\<bar> < 1 / 2"
  shows "fsub m n = m - n"
proof -
  define g where "g = (2::rat) powi (- 54)"
  have g: "0 < g" by (simp add: g_def)
  from double_grid [OF assms(1,3,4)] obtain i where m: "m = of_int i * g"
    unfolding g_def ..
  from double_grid [OF assms(2,5,6)] obtain k where n: "n = of_int k * g"
    unfolding g_def ..
  have d: "m - n = of_int (i - k) * g"
    by (simp only: m n of_int_diff left_diff_distrib)
  have h: "(1::rat) / 2 = of_int (2 ^ 53) * g"
    unfolding g_def using pow2_split [of "- 54" "- 1"] by (simp add: power_int_minus)
  from assms(7) have "\<bar>of_int (i - k) * g\<bar> < of_int (2 ^ 53) * g"
    by (simp only: d h)
  then have "\<bar>of_int (i - k) :: rat\<bar> * g < of_int (2 ^ 53) * g"
    using g by (simp only: abs_mult abs_of_pos)
  then have "\<bar>of_int (i - k) :: rat\<bar> < of_int (2 ^ 53)"
    using g by (simp only: mult_less_cancel_right_pos)
  then have "\<bar>i - k\<bar> < 2 ^ 53"
    by (simp only: of_int_abs [symmetric] of_int_less_iff)
  from to_double_exact [OF this, of "- 54"] show ?thesis
    by (simp only: fsub_def d g_def)
qed

lemma margin_not_below:
  assumes "smallMarginThreshold \<le> \<bar>m - n\<bar>"
  shows "smallMarginThreshold \<le> \<bar>fsub m n\<bar>"
proof (cases "0 \<le> m - n")
  case True
  with assms have "of_int 5404319552844595 * 2 powi (- 54) \<le> m - n"
    by (simp add: threshold_values)
  then have "of_int 5404319552844595 * 2 powi (- 54) \<le> to_double (m - n)"
    by (intro to_double_ge) simp_all
  then show ?thesis by (simp add: fsub_def threshold_values)
next
  case False
  with assms have "m - n \<le> - (of_int 5404319552844595 * 2 powi (- 54))"
    by (simp add: threshold_values)
  then have "to_double (m - n) \<le> - (of_int 5404319552844595 * 2 powi (- 54))"
    by (intro to_double_le) simp_all
  then show ?thesis by (simp add: fsub_def threshold_values)
qed

lemma margin_test_exact:
  assumes "is_double m" "is_double n"
    and "lowConfidenceThreshold \<le> max m n" "max m n < highConfidenceThreshold"
  shows "(\<bar>fsub m n\<bar> < smallMarginThreshold) = (\<bar>m - n\<bar> < smallMarginThreshold)"
proof
  assume "\<bar>fsub m n\<bar> < smallMarginThreshold"
  then show "\<bar>m - n\<bar> < smallMarginThreshold"
    using margin_not_below [of m n] by linarith
next
  assume a: "\<bar>m - n\<bar> < smallMarginThreshold"
  with assms(3,4) threshold_order have "1 / 4 < m" "m < 1" "1 / 4 < n" "n < 1" "\<bar>m - n\<bar> < 1 / 2"
    by linarith+
  with assms(1,2) have "fsub m n = m - n" by (intro fsub_exact)
  with a show "\<bar>fsub m n\<bar> < smallMarginThreshold" by simp
qed

lemma to_double_idem: "to_double (to_double x) = to_double x"
proof (cases "x = 0")
  case True
  then show ?thesis by (simp add: to_double_def)
next
  case False
  define e where "e = max (exponent x) (- 1022)"
  define u where "u = (2::rat) powi (e - 52)"
  define r where "r = round_half_even (x / u)"
  have u: "0 < u" by (simp add: u_def)
  have e: "- 1074 \<le> e - 52" by (simp add: e_def)
  have td: "to_double x = of_int r * u"
    using False by (simp add: to_double_unfold u_def e_def r_def)
  have "(2::rat) powi (exponent x + 1) \<le> 2 powi (e + 1)"
    by (intro power_int_increasing) (simp_all add: e_def)
  moreover have "(2::rat) powi (e + 1) = of_int (2 ^ 53) * u"
    unfolding u_def using pow2_split [of "e - 52" "e + 1"] by simp
  ultimately have b: "\<bar>x\<bar> < of_int (2 ^ 53) * u"
    using exponent_upper [OF False] by linarith
  then have "x \<le> of_int (2 ^ 53) * u" "of_int (- (2 ^ 53)) * u \<le> x"
    by simp_all
  then have q: "x / u \<le> of_int (2 ^ 53)" "of_int (- (2 ^ 53)) \<le> x / u"
    using u by (simp_all only: pos_divide_le_eq pos_le_divide_eq)
  have "r \<le> 2 ^ 53" unfolding r_def using q(1) by (rule round_half_even_le)
  moreover have "- (2 ^ 53) \<le> r" unfolding r_def using q(2) by (rule round_half_even_ge)
  ultimately consider "\<bar>r\<bar> < 2 ^ 53" | "r = 2 ^ 53" | "r = - (2 ^ 53)"
    by linarith
  then have "to_double (of_int r * u) = of_int r * u"
  proof cases
    case 1
    from to_double_exact [OF this e] show ?thesis by (simp only: u_def)
  next
    case 2
    have "of_int r * u = of_int (2 ^ 52) * 2 powi (e - 51)"
      unfolding u_def 2 using pow2_split [of "e - 52" "e - 51"] by simp
    moreover have "to_double (of_int (2 ^ 52) * 2 powi (e - 51)) = of_int (2 ^ 52) * 2 powi (e - 51)"
      using e by (intro to_double_exact) simp_all
    ultimately show ?thesis by simp
  next
    case 3
    have "of_int r * u = of_int (- (2 ^ 52)) * 2 powi (e - 51)"
      unfolding u_def 3 using pow2_split [of "e - 52" "e - 51"] by simp
    moreover have "to_double (of_int (- (2 ^ 52)) * 2 powi (e - 51))
        = of_int (- (2 ^ 52)) * 2 powi (e - 51)"
      using e by (intro to_double_exact) simp_all
    ultimately show ?thesis by simp
  qed
  then show ?thesis by (simp only: td)
qed

lemma is_double_to_double: "is_double (to_double x)"
  by (simp only: is_double_def to_double_idem)

lemma is_double_0: "is_double 0"
  by (simp add: is_double_def to_double_def)

lemma is_double_fsub: "is_double (fsub a b)"
  by (simp only: fsub_def is_double_to_double)

section \<open>Properties of the decision algorithm\<close>

lemmas thresholds = highConfidenceThreshold_def lowConfidenceThreshold_def smallMarginThreshold_def

lemma js_literals:
  "to_double 0.8 = highConfidenceThreshold"
  "to_double 0.6 = lowConfidenceThreshold"
  "to_double 0.3 = smallMarginThreshold"
  by (simp_all only: thresholds)

lemma toLowerCase_meme: "toLowerCase ''meme'' = ''meme''"
  by code_simp

lemma toLowerCase_not_meme: "toLowerCase ''not meme'' = ''not meme''"
  by code_simp

lemma meme_entry_labels:
  "isMemeLabel (meme_entry s)"
  "\<not> isNotMemeLabel (meme_entry s)"
  by (simp_all add: meme_entry_def isMemeLabel_def isNotMemeLabel_def toLowerCase_meme)

lemma not_meme_entry_labels:
  "\<not> isMemeLabel (not_meme_entry s)"
  "isNotMemeLabel (not_meme_entry s)"
  by (simp_all add: not_meme_entry_def isMemeLabel_def isNotMemeLabel_def toLowerCase_not_meme)

lemma score_entries: "score (meme_entry s) = s" "score (not_meme_entry s) = s"
  by (simp_all add: meme_entry_def not_meme_entry_def)

lemma resolved_pair:
  "memeScore [meme_entry m, not_meme_entry n] = m"
  "notMemeScore [meme_entry m, not_meme_entry n] = n"
  by (simp_all add: memeScore_def notMemeScore_def score_or_zero_def meme_entry_labels
      not_meme_entry_labels score_entries)

text \<open>Scores that are doubles resolve to doubles.\<close>

lemma score_or_zero_double:
  "(\<And>x. r = Some x \<Longrightarrow> is_double (score x)) \<Longrightarrow> is_double (score_or_zero r)"
  by (cases r) (simp_all add: score_or_zero_def is_double_0)

lemma find_Some_member: "find P xs = Some x \<Longrightarrow> x \<in> set xs"
  by (metis find_Some_iff nth_mem)

lemma resolved_scores_double:
  assumes "\<forall>r \<in> set results. is_double (score r)"
  shows "is_double (memeScore results)" and "is_double (notMemeScore results)"
  using assms unfolding memeScore_def notMemeScore_def
  by (auto intro!: score_or_zero_double dest: find_Some_member)

text \<open>
  On doubles the rounded subtraction decides the margin test as the exact difference
  does, so the computed decision is the rule on the exact margin.
\<close>

lemma isMeme_exact_margin:
  assumes "is_double (memeScore results)" and "is_double (notMemeScore results)"
  shows "isMeme (determineMemeClassification results) =
     (if max (memeScore results) (notMemeScore results) \<ge> highConfidenceThreshold
      then memeScore results > notMemeScore results
      else if max (memeScore results) (notMemeScore results) < lowConfidenceThreshold then True
      else if \<bar>memeScore results - notMemeScore results\<bar> < smallMarginThreshold then True
      else memeScore results > notMemeScore results)"
proof (cases "lowConfidenceThreshold \<le> max (memeScore results) (notMemeScore results) \<and>
    max (memeScore results) (notMemeScore results) < highConfidenceThreshold")
  case True
  then have "(\<bar>fsub (memeScore results) (notMemeScore results)\<bar> < smallMarginThreshold)
      = (\<bar>memeScore results - notMemeScore results\<bar> < smallMarginThreshold)"
    using assms by (intro margin_test_exact) simp_all
  then show ?thesis
    by (simp add: determineMemeClassification_def Let_def)
next
  case False
  then show ?thesis
    by (auto simp add: determineMemeClassification_def Let_def)
qed

lemma three_branch_rule_named:
  "three_branch_rule m n =
     (if max m n \<ge> highConfidenceThreshold then m > n
      else if max m n < lowConfidenceThreshold then True
      else if \<bar>m - n\<bar> < smallMarginThreshold then True
      else m > n)"
  unfolding three_branch_rule_def js_literals ..

lemma rule_examples:
  "three_branch_rule (to_double 0.63) (to_double 0.37)"
  "\<not> three_branch_rule (to_double 0.08) (to_double 0.92)"
  "three_branch_rule (to_double 0.82) (to_double 0.18)"
  "three_branch_rule (to_double 0.45) (to_double 0.55)"
  "\<not> three_branch_rule (to_double 0.25) (to_double 0.75)"
  "three_branch_rule (to_double 0.4) (to_double 0.7)"
  "three_branch_rule (to_double 0.39) (to_double 0.69)"
  by code_simp+

text \<open>
  The scores 0.4 against 0.7, computed: the subtraction gives \<open>-0.29999999999999993\<close>,
  below the threshold \<open>0.3\<close> in absolute value, and the decision is meme.
\<close>

lemma computed_examples:
  "fsub (to_double 0.4) (to_double 0.7) = - (2702159776422297 / 9007199254740992)"
  "smallMarginThreshold = 5404319552844595 / 18014398509481984"
  "isMeme (determineMemeClassification
      [meme_entry (to_double 0.4), not_meme_entry (to_double 0.7)])"
  by code_simp+

text \<open>
  Claim C1. For every pair of resolved scores, in [0,1] or not (any pair of doubles is
  resolved from some raw result, \<open>resolved_pair\<close>), \<open>isMeme\<close> is what the three-branch
  rule of the specification gives on the resolved scores, the branches tried in the order
  high confidence, low confidence, medium confidence with its margin test. The scores
  are doubles, as every number of the program is.
\<close>

theorem decision_follows_three_branch_rule:
  assumes "is_double (memeScore results)" and "is_double (notMemeScore results)"
  shows "isMeme (determineMemeClassification results) =
     three_branch_rule (memeScore results) (notMemeScore results)"
  using assms by (simp only: isMeme_exact_margin three_branch_rule_named)

theorem decision_follows_three_branch_rule_witness:
  "isMeme (determineMemeClassification
      [meme_entry (to_double 0.63), not_meme_entry (to_double 0.37)]) \<and>
   \<not> isMeme (determineMemeClassification
      [meme_entry (to_double 0.08), not_meme_entry (to_double 0.92)]) \<and>
   isMeme (determineMemeClassification
      [meme_entry (to_double 0.82), not_meme_entry (to_double 0.18)]) \<and>
   isMeme (determineMemeClassification
      [meme_entry (to_double 0.45), not_meme_entry (to_double 0.55)]) \<and>
   \<not> isMeme (determineMemeClassification
      [meme_entry (to_double 0.25), not_meme_entry (to_double 0.75)]) \<and>
   isMeme (determineMemeClassification
      [meme_entry (to_double 0.4), not_meme_entry (to_double 0.7)]) \<and>
   isMeme (determineMemeClassification
      [meme_entry (to_double 0.39), not_meme_entry (to_double 0.69)])"
proof -
  have p: "isMeme (determineMemeClassification [meme_entry a, not_meme_entry b])
      = three_branch_rule a b" if "is_double a" and "is_double b" for a b
    using decision_follows_three_branch_rule [of "[meme_entry a, not_meme_entry b]"] that
    by (simp only: resolved_pair)
  show ?thesis
    using rule_examples by (simp only: p is_double_to_double simp_thms)
qed

text \<open>
  Claim C2. The confidence returned by the decision algorithm is the resolved meme score,
  whatever branch decides; when the not-meme class wins it differs from the winner's score.
\<close>

theorem confidence_is_meme_score:
  "confidence (determineMemeClassification results) = memeScore results \<and>
   (memeScore results < notMemeScore results \<longrightarrow>
      confidence (determineMemeClassification results)
        \<noteq> max (memeScore results) (notMemeScore results))"
  by (simp add: determineMemeClassification_def Let_def)

lemma low_and_high_example: "to_double 0.08 < to_double 0.92"
  by code_simp

theorem confidence_is_meme_score_witness:
  "memeScore [meme_entry (to_double 0.08), not_meme_entry (to_double 0.92)]
     < notMemeScore [meme_entry (to_double 0.08), not_meme_entry (to_double 0.92)] \<and>
   confidence (determineMemeClassification
      [meme_entry (to_double 0.08), not_meme_entry (to_double 0.92)]) = to_double 0.08 \<and>
   confidence (determineMemeClassification
      [meme_entry (to_double 0.08), not_meme_entry (to_double 0.92)]) \<noteq> to_double 0.92"
  using confidence_is_meme_score [of "[meme_entry (to_double 0.08), not_meme_entry (to_double 0.92)]"]
    low_and_high_example
  by (simp add: resolved_pair)

text \<open>
  Claim C5. On doubles: a winner of exactly 0.8 is decided by trusting the winner; a
  winner of exactly 0.6 is decided by the margin test of the medium branch and not by the
  low-confidence default; in the medium branch a margin of exactly 0.3 trusts the winner,
  whether the margin is read as the exact difference or as the subtraction computes it.
\<close>

theorem threshold_boundaries:
  assumes "is_double (memeScore results)" and "is_double (notMemeScore results)"
  shows
  "(max (memeScore results) (notMemeScore results) = to_double 0.8 \<longrightarrow>
      isMeme (determineMemeClassification results)
        = (memeScore results > notMemeScore results)) \<and>
   (max (memeScore results) (notMemeScore results) = to_double 0.6 \<longrightarrow>
      isMeme (determineMemeClassification results)
        = (if \<bar>memeScore results - notMemeScore results\<bar> < to_double 0.3 then True
           else memeScore results > notMemeScore results)) \<and>
   (to_double 0.6 \<le> max (memeScore results) (notMemeScore results) \<and>
    max (memeScore results) (notMemeScore results) < to_double 0.8 \<and>
    \<bar>memeScore results - notMemeScore results\<bar> = to_double 0.3 \<longrightarrow>
      isMeme (determineMemeClassification results)
        = (memeScore results > notMemeScore results)) \<and>
   (to_double 0.6 \<le> max (memeScore results) (notMemeScore results) \<and>
    max (memeScore results) (notMemeScore results) < to_double 0.8 \<and>
    \<bar>fsub (memeScore results) (notMemeScore results)\<bar> = to_double 0.3 \<longrightarrow>
      isMeme (determineMemeClassification results)
        = (memeScore results > notMemeScore results))"
proof -
  have computed:
    "lowConfidenceThreshold \<le> max (memeScore results) (notMemeScore results) \<and>
     max (memeScore results) (notMemeScore results) < highConfidenceThreshold \<and>
     \<bar>fsub (memeScore results) (notMemeScore results)\<bar> = smallMarginThreshold \<longrightarrow>
       isMeme (determineMemeClassification results)
         = (memeScore results > notMemeScore results)"
    by (auto simp add: determineMemeClassification_def Let_def not_le not_less)
  show ?thesis
    unfolding js_literals
    using computed threshold_order(4) by (auto simp add: isMeme_exact_margin [OF assms])
qed

lemma boundary_examples:
  "max (to_double 0.6) (to_double 0.8) = to_double 0.8"
  "\<not> to_double 0.8 < to_double 0.6"
  "max (to_double 0.3) (to_double 0.6) = to_double 0.6"
  "\<bar>to_double 0.3 - to_double 0.6\<bar> = to_double 0.3"
  "\<not> to_double 0.6 < to_double 0.3"
  "to_double 0.6 < to_double 0.8"
  by code_simp+

theorem threshold_boundaries_witness:
  "is_double (memeScore [meme_entry (to_double 0.6), not_meme_entry (to_double 0.8)]) \<and>
   is_double (notMemeScore [meme_entry (to_double 0.6), not_meme_entry (to_double 0.8)]) \<and>
   max (memeScore [meme_entry (to_double 0.6), not_meme_entry (to_double 0.8)])
       (notMemeScore [meme_entry (to_double 0.6), not_meme_entry (to_double 0.8)])
     = to_double 0.8 \<and>
   \<not> isMeme (determineMemeClassification
      [meme_entry (to_double 0.6), not_meme_entry (to_double 0.8)]) \<and>
   max (memeScore [meme_entry (to_double 0.3), not_meme_entry (to_double 0.6)])
       (notMemeScore [meme_entry (to_double 0.3), not_meme_entry (to_double 0.6)])
     = to_double 0.6 \<and>
   \<bar>memeScore [meme_entry (to_double 0.3), not_meme_entry (to_double 0.6)]
      - notMemeScore [meme_entry (to_double 0.3), not_meme_entry (to_double 0.6)]\<bar>
     = to_double 0.3 \<and>
   \<not> isMeme (determineMemeClassification
      [meme_entry (to_double 0.3), not_meme_entry (to_double 0.6)])"
proof -
  have d: "is_double (memeScore [meme_entry (to_double a), not_meme_entry (to_double b)])"
    "is_double (notMemeScore [meme_entry (to_double a), not_meme_entry (to_double b)])" for a b
    by (simp_all only: resolved_pair is_double_to_double)
  from threshold_boundaries [OF d, of "0.6" "0.8"] threshold_boundaries [OF d, of "0.3" "0.6"]
    boundary_examples d [of "0.6" "0.8"]
  show ?thesis
    by (simp add: resolved_pair)
qed

lemma find_no_match: "(\<forall>r \<in> set xs. \<not> P r) \<Longrightarrow> find P xs = None"
  by (simp add: find_None_iff)

lemma classifyImage_on_array:
  assumes "classifier m = Some h"
    and "invoke env h url (w\<lparr>inferences := inferences w @ [url]\<rparr>) = (Inr (Array results), t)"
    and "results \<noteq> []"
  shows "fst (classifyImage env m w url) =
     (Inr \<lparr>isMeme = isMeme (determineMemeClassification results),
           confidence = confidence (determineMemeClassification results),
           inferenceTimeMs = fsub t (clock w)\<rparr>, t)"
  using assms by (simp add: classifyImage_def Let_def)

text \<open>
  Claim C9. When no entry has a meme label the meme score resolves to 0, when none has a
  not-meme label the not-meme score resolves to 0, and the decision is still made; a
  loaded classifier that answers with such a non-empty array gets a fulfilled result.
\<close>

theorem missing_label_scores_zero:
  "((\<forall>r \<in> set results. \<not> isMemeLabel r) \<longrightarrow>
      memeScore results = 0 \<and>
      determineMemeClassification results =
        \<lparr>isMeme = (notMemeScore results < to_double 0.6), confidence = 0\<rparr>) \<and>
   ((\<forall>r \<in> set results. \<not> isNotMemeLabel r) \<longrightarrow>
      notMemeScore results = 0 \<and>
      determineMemeClassification results =
        \<lparr>isMeme = True, confidence = memeScore results\<rparr>) \<and>
   (classifier m = Some h \<and> results \<noteq> [] \<and>
    invoke env h url (w\<lparr>inferences := inferences w @ [url]\<rparr>) = (Inr (Array results), t) \<and>
    (\<forall>r \<in> set results. \<not> isMemeLabel r) \<longrightarrow>
      fst (classifyImage env m w url) =
        (Inr \<lparr>isMeme = (notMemeScore results < to_double 0.6), confidence = 0,
              inferenceTimeMs = fsub t (clock w)\<rparr>, t))"
proof -
  have a: "memeScore results = 0" if "\<forall>r \<in> set results. \<not> isMemeLabel r"
    using that by (simp add: memeScore_def find_no_match score_or_zero_def)
  have b: "notMemeScore results = 0" if "\<forall>r \<in> set results. \<not> isNotMemeLabel r"
    using that by (simp add: notMemeScore_def find_no_match score_or_zero_def)
  have c: "determineMemeClassification results =
      \<lparr>isMeme = (notMemeScore results < to_double 0.6), confidence = 0\<rparr>"
    if m: "memeScore results = 0"
  proof -
    have "smallMarginThreshold \<le> \<bar>fsub 0 (notMemeScore results)\<bar>"
      if "lowConfidenceThreshold \<le> notMemeScore results"
      using that threshold_order by (intro margin_not_below) linarith
    then show ?thesis
      unfolding js_literals using threshold_order
      by (auto simp add: determineMemeClassification_def Let_def m max_def)
  qed
  have d: "determineMemeClassification results =
      \<lparr>isMeme = True, confidence = memeScore results\<rparr>" if n: "notMemeScore results = 0"
  proof -
    have "smallMarginThreshold \<le> \<bar>fsub (memeScore results) 0\<bar>"
      if "lowConfidenceThreshold \<le> memeScore results"
      using that threshold_order by (intro margin_not_below) linarith
    then show ?thesis
      using threshold_order
      by (auto simp add: determineMemeClassification_def Let_def n max_def)
  qed
  show ?thesis
    using a b c d classifyImage_on_array [of m h env url w results t] by auto
qed

lemma fsub_examples: "fsub 1 0 = 1" "fsub 2 0 = 2" "fsub 3 0 = 3" "fsub 4 0 = 4"
  by code_simp+

lemma dyadic_examples:
  "to_double 0.75 = 3 / 4" "to_double 0.25 = 1 / 4" "\<not> to_double 0.75 < to_double 0.6"
  by code_simp+

theorem missing_label_scores_zero_witness:
  "\<not> isMemeLabel (not_meme_entry (to_double 0.75)) \<and>
   determineMemeClassification [not_meme_entry (to_double 0.75)]
     = \<lparr>isMeme = False, confidence = 0\<rparr> \<and>
   \<not> isNotMemeLabel (meme_entry (to_double 0.25)) \<and>
   determineMemeClassification [meme_entry (to_double 0.25)]
     = \<lparr>isMeme = True, confidence = 1 / 4\<rparr> \<and>
   fst (classifyImage demo_backend loaded_module initial_world ''f'') =
     (Inr \<lparr>isMeme = False, confidence = 0, inferenceTimeMs = 4\<rparr>, 4)"
proof -
  have n: "notMemeScore [not_meme_entry (to_double 0.75)] = to_double 0.75"
    by (simp add: notMemeScore_def score_or_zero_def not_meme_entry_labels score_entries)
  have m: "memeScore [meme_entry (to_double 0.25)] = to_double 0.25"
    by (simp add: memeScore_def score_or_zero_def meme_entry_labels score_entries)
  have i: "invoke demo_backend 7 ''f''
      (initial_world\<lparr>inferences := inferences initial_world @ [''f'']\<rparr>)
      = (Inr (Array [not_meme_entry (to_double 0.75)]), 4)"
    by (simp add: demo_backend_def demo_invoke_def initial_world_def)
  have c: "clock initial_world = 0" "classifier loaded_module = Some 7"
    by (simp_all add: initial_world_def loaded_module_def)
  from missing_label_scores_zero [of "[not_meme_entry (to_double 0.75)]" loaded_module 7
        demo_backend "''f''" initial_world 4]
    missing_label_scores_zero [of "[meme_entry (to_double 0.25)]" loaded_module 7
        demo_backend "''f''" initial_world 4]
    n m i c dyadic_examples fsub_examples(4)
  show ?thesis
    by (simp add: not_meme_entry_labels meme_entry_labels)
qed

section \<open>Properties of the model lifecycle\<close>

lemma includes_suffix: "str_includes (pre @ s) s"
proof (induction pre)
  case Nil
  show ?case by (cases s) simp_all
next
  case (Cons c pre)
  then show ?case by simp
qed

lemma loadModel_both_fail:
  assumes "both_attempts_fail env m w"
  shows "fst (loadModel env m w) = Inl ModelLoadError"
    and "modelStatus (fst (snd (loadModel env m w))) = Error"
    and "classifier (fst (snd (loadModel env m w))) = None"
  using assms
  by (auto simp add: both_attempts_fail_def webgpu_attempt_def wasm_attempt_def loadModel_def
      await_def Let_def isl_def split: sum.splits prod.splits)

lemma loadModel_error_only_both_fail:
  assumes "fst (loadModel env m w) = Inl e"
  shows "e = ModelLoadError \<and> both_attempts_fail env m w"
  using assms
  by (auto simp add: both_attempts_fail_def webgpu_attempt_def wasm_attempt_def loadModel_def
      await_def Let_def split: sum.splits prod.splits option.splits)

text \<open>
  Claim C6. When no handle is set and both the accelerated and the fallback attempt are
  rejected, \<open>loadModel\<close> throws the load error, leaves the status at \<open>error\<close> and the
  handle unset; \<open>loadModel\<close> throws in no other case, and the message of the error
  contains the model identifier.
\<close>

theorem loadModel_fails_iff_both_attempts_fail:
  "(both_attempts_fail env m w \<longrightarrow>
      fst (loadModel env m w) = Inl ModelLoadError \<and>
      modelStatus (fst (snd (loadModel env m w))) = Error \<and>
      classifier (fst (snd (loadModel env m w))) = None) \<and>
   (\<forall>e. fst (loadModel env m w) = Inl e \<longrightarrow>
      e = ModelLoadError \<and> both_attempts_fail env m w) \<and>
   str_includes (message ModelLoadError) HUGGINGFACE_MODEL"
proof (intro conjI impI allI)
  show "str_includes (message ModelLoadError) HUGGINGFACE_MODEL"
    by (simp only: ModelLoadError_def message.simps includes_suffix)
qed (simp_all add: loadModel_both_fail loadModel_error_only_both_fail)

theorem loadModel_fails_iff_both_attempts_fail_witness:
  "both_attempts_fail dead_backend initial_module initial_world \<and>
   loadModel dead_backend initial_module initial_world =
     (Inl (JsError ''unable to load model: prettyirrelevant/meme-detector-onnx''),
      \<lparr>classifier = None, modelStatus = Error\<rparr>,
      \<lparr>clock = 18, acquisitions = [WebGPU, Wasm], inferences = []\<rparr>) \<and>
   \<not> both_attempts_fail demo_backend initial_module initial_world \<and>
   fst (loadModel demo_backend initial_module initial_world) = Inr ()"
proof -
  have b: "both_attempts_fail dead_backend initial_module initial_world"
    by (simp add: both_attempts_fail_def webgpu_attempt_def wasm_attempt_def dead_backend_def
        initial_module_def initial_world_def await_def)
  have l: "loadModel dead_backend initial_module initial_world =
     (Inl ModelLoadError, \<lparr>classifier = None, modelStatus = Error\<rparr>,
      \<lparr>clock = 18, acquisitions = [WebGPU, Wasm], inferences = []\<rparr>)"
    by (simp add: loadModel_def dead_backend_def initial_module_def initial_world_def await_def)
  have d: "fst (loadModel demo_backend initial_module initial_world) = Inr ()"
    by (simp add: loadModel_def demo_backend_def demo_pipeline_def initial_module_def
        initial_world_def await_def)
  show ?thesis
    using loadModel_fails_iff_both_attempts_fail [of dead_backend initial_module initial_world]
      loadModel_fails_iff_both_attempts_fail [of demo_backend initial_module initial_world]
      b l d
    by (simp add: ModelLoadError_def HUGGINGFACE_MODEL_def)
qed

text \<open>
  Claim C7. With a handle already set, \<open>loadModel\<close> returns at once: the status is
  \<open>ready\<close>, the handle is the same, and the world is untouched, so that no backend is
  acquired a second time.
\<close>

theorem loadModel_idempotent:
  "classifier m = Some h \<Longrightarrow>
     loadModel env m w = (Inr (), m\<lparr>modelStatus := Ready\<rparr>, w) \<and>
     classifier (fst (snd (loadModel env m w))) = Some h \<and>
     modelStatus (fst (snd (loadModel env m w))) = Ready \<and>
     acquisitions (snd (snd (loadModel env m w))) = acquisitions w"
  by (simp add: loadModel_def)

lemma demo_load:
  "loadModel demo_backend initial_module initial_world =
     (Inr (), loaded_module, \<lparr>clock = 12, acquisitions = [WebGPU, Wasm], inferences = []\<rparr>)"
  by (simp add: loadModel_def demo_backend_def demo_pipeline_def initial_module_def
      initial_world_def loaded_module_def await_def)

theorem loadModel_idempotent_witness:
  "classifier loaded_module = Some 7 \<and>
   loadModel demo_backend initial_module initial_world =
     (Inr (), loaded_module, \<lparr>clock = 12, acquisitions = [WebGPU, Wasm], inferences = []\<rparr>) \<and>
   loadModel demo_backend loaded_module
       \<lparr>clock = 12, acquisitions = [WebGPU, Wasm], inferences = []\<rparr> =
     (Inr (), loaded_module, \<lparr>clock = 12, acquisitions = [WebGPU, Wasm], inferences = []\<rparr>)"
proof -
  have c: "classifier loaded_module = Some 7"
    by (simp add: loaded_module_def)
  have r: "loaded_module\<lparr>modelStatus := Ready\<rparr> = loaded_module"
    by (simp add: loaded_module_def)
  show ?thesis
    using loadModel_idempotent [OF c, of demo_backend
        "\<lparr>clock = 12, acquisitions = [WebGPU, Wasm], inferences = []\<rparr>"] c r demo_load
    by simp
qed

section \<open>Properties of the classification\<close>

lemma classifyImage_not_loaded:
  "classifier m = None \<Longrightarrow> classifyImage env m w url = ((Inl ModelNotLoadedError, clock w), w)"
  by (simp add: classifyImage_def)

lemma classifyImage_loaded_fulfilled:
  "classifier m = Some h \<Longrightarrow> \<exists>res t. fst (classifyImage env m w url) = (Inr res, t)"
  by (simp add: classifyImage_def Let_def split: prod.splits)

lemma classifyImage_loaded_world:
  "classifier m = Some h \<Longrightarrow>
     snd (classifyImage env m w url) = w\<lparr>inferences := inferences w @ [url]\<rparr>"
  by (simp add: classifyImage_def Let_def split: prod.splits)

lemma classifyImage_soft_failure:
  assumes "classifier m = Some h"
    and "invoke env h url (w\<lparr>inferences := inferences w @ [url]\<rparr>) = (r, t)"
    and "r = Inr Absent \<or> r = Inr NotArray \<or> r = Inr (Array []) \<or> (\<exists>e. r = Inl e)"
  shows "fst (classifyImage env m w url) =
     (Inr \<lparr>isMeme = False, confidence = 0, inferenceTimeMs = fsub t (clock w)\<rparr>, t)"
  using assms by (auto simp add: classifyImage_def Let_def)

text \<open>
  Claim C3. \<open>classifyImage\<close> rejects with the not-loaded error exactly when no handle is
  set. With a handle set its promise is always fulfilled; when the classifier throws, or
  yields nothing, a non-array or an empty array, the value is the safe default
  \<open>isMeme = false\<close>, \<open>confidence = 0\<close> with the time elapsed between the two clock readings.
\<close>

theorem classifyImage_throws_only_unloaded:
  "(fst (fst (classifyImage env m w url)) = Inl ModelNotLoadedError
      \<longleftrightarrow> classifier m = None) \<and>
   (classifier m \<noteq> None \<longrightarrow> (\<exists>res. fst (fst (classifyImage env m w url)) = Inr res)) \<and>
   (classifier m = Some h \<and>
    invoke env h url (w\<lparr>inferences := inferences w @ [url]\<rparr>) = (r, t) \<and>
    (r = Inr Absent \<or> r = Inr NotArray \<or> r = Inr (Array []) \<or> (\<exists>e. r = Inl e)) \<longrightarrow>
      fst (classifyImage env m w url) =
        (Inr \<lparr>isMeme = False, confidence = 0, inferenceTimeMs = fsub t (clock w)\<rparr>, t))"
proof (intro conjI impI)
  show "(fst (fst (classifyImage env m w url)) = Inl ModelNotLoadedError)
      = (classifier m = None)"
  proof (cases "classifier m")
    case None
    then show ?thesis by (simp add: classifyImage_not_loaded)
  next
    case (Some h')
    from classifyImage_loaded_fulfilled [OF this, of env w url] Some
    show ?thesis by auto
  qed
next
  assume "classifier m \<noteq> None"
  then obtain h' where "classifier m = Some h'" by auto
  from classifyImage_loaded_fulfilled [OF this, of env w url]
  show "\<exists>res. fst (fst (classifyImage env m w url)) = Inr res" by auto
next
  assume "classifier m = Some h \<and>
    invoke env h url (w\<lparr>inferences := inferences w @ [url]\<rparr>) = (r, t) \<and>
    (r = Inr Absent \<or> r = Inr NotArray \<or> r = Inr (Array []) \<or> (\<exists>e. r = Inl e))"
  then show "fst (classifyImage env m w url) =
        (Inr \<lparr>isMeme = False, confidence = 0, inferenceTimeMs = fsub t (clock w)\<rparr>, t)"
    using classifyImage_soft_failure [of m h env url w r t] by blast
qed

lemma demo_invocations:
  "invoke demo_backend 7 ''a'' (initial_world\<lparr>inferences := inferences initial_world @ [''a'']\<rparr>)
     = (Inl (JsError ''decode failed''), 3)"
  "invoke demo_backend 7 ''c'' (initial_world\<lparr>inferences := inferences initial_world @ [''c'']\<rparr>)
     = (Inr Absent, 1)"
  "invoke demo_backend 7 ''d'' (initial_world\<lparr>inferences := inferences initial_world @ [''d'']\<rparr>)
     = (Inr NotArray, 1)"
  "invoke demo_backend 7 ''e'' (initial_world\<lparr>inferences := inferences initial_world @ [''e'']\<rparr>)
     = (Inr (Array []), 1)"
  by (simp_all add: demo_backend_def demo_invoke_def initial_world_def)

theorem classifyImage_throws_only_unloaded_witness:
  "fst (fst (classifyImage demo_backend initial_module initial_world ''a''))
     = Inl (JsError ''model not loaded. call loadModel() first.'') \<and>
   fst (classifyImage demo_backend loaded_module initial_world ''a'')
     = (Inr \<lparr>isMeme = False, confidence = 0, inferenceTimeMs = 3\<rparr>, 3) \<and>
   fst (classifyImage demo_backend loaded_module initial_world ''c'')
     = (Inr \<lparr>isMeme = False, confidence = 0, inferenceTimeMs = 1\<rparr>, 1) \<and>
   fst (classifyImage demo_backend loaded_module initial_world ''d'')
     = (Inr \<lparr>isMeme = False, confidence = 0, inferenceTimeMs = 1\<rparr>, 1) \<and>
   fst (classifyImage demo_backend loaded_module initial_world ''e'')
     = (Inr \<lparr>isMeme = False, confidence = 0, inferenceTimeMs = 1\<rparr>, 1)"
proof -
  have c: "classifier loaded_module = Some 7" "classifier initial_module = None"
    "clock initial_world = 0"
    by (simp_all add: loaded_module_def initial_module_def initial_world_def)
  show ?thesis
    using classifyImage_throws_only_unloaded [of demo_backend initial_module initial_world "''a''" 7
        "Inl (JsError ''decode failed'')" 3]
      classifyImage_throws_only_unloaded [of demo_backend loaded_module initial_world "''a''" 7
        "Inl (JsError ''decode failed'')" 3]
      classifyImage_throws_only_unloaded [of demo_backend loaded_module initial_world "''c''" 7
        "Inr Absent" 1]
      classifyImage_throws_only_unloaded [of demo_backend loaded_module initial_world "''d''" 7
        "Inr NotArray" 1]
      classifyImage_throws_only_unloaded [of demo_backend loaded_module initial_world "''e''" 7
        "Inr (Array [])" 1]
    by (simp add: c demo_invocations ModelNotLoadedError_def fsub_examples)
qed

section \<open>Properties of batch classification\<close>

lemma map_classifyImage_Cons:
  "map_classifyImage env m w (u # us) =
     (fst (classifyImage env m w u)
        # fst (map_classifyImage env m (snd (classifyImage env m w u)) us),
      snd (map_classifyImage env m (snd (classifyImage env m w u)) us))"
  by (simp add: Let_def case_prod_beta)

lemma map_classifyImage_length:
  "length (fst (map_classifyImage env m w urls)) = length urls"
  by (induction urls arbitrary: w)
    (simp_all add: map_classifyImage_Cons del: map_classifyImage.simps(2))

lemma map_classifyImage_world:
  "classifier m = Some h \<Longrightarrow>
     snd (map_classifyImage env m w urls) = w\<lparr>inferences := inferences w @ urls\<rparr>"
proof (induction urls arbitrary: w)
  case Nil
  then show ?case by simp
next
  case (Cons u us)
  have "snd (classifyImage env m w u) = w\<lparr>inferences := inferences w @ [u]\<rparr>"
    using Cons.prems by (rule classifyImage_loaded_world)
  then show ?case
    using Cons.IH [OF Cons.prems, of "w\<lparr>inferences := inferences w @ [u]\<rparr>"]
    by (simp add: map_classifyImage_Cons del: map_classifyImage.simps(2))
qed

lemma world_at_0: "world_at w urls 0 = w"
  by (simp add: world_at_def)

lemma world_at_Suc:
  "world_at w (u # us) (Suc i) = world_at (w\<lparr>inferences := inferences w @ [u]\<rparr>) us i"
  by (simp add: world_at_def)

lemma map_classifyImage_nth:
  "classifier m = Some h \<Longrightarrow> i < length urls \<Longrightarrow>
     fst (map_classifyImage env m w urls) ! i
       = fst (classifyImage env m (world_at w urls i) (urls ! i))"
proof (induction urls arbitrary: w i)
  case Nil
  then show ?case by simp
next
  case (Cons u us)
  have s: "snd (classifyImage env m w u) = w\<lparr>inferences := inferences w @ [u]\<rparr>"
    using Cons.prems(1) by (rule classifyImage_loaded_world)
  show ?case
  proof (cases i)
    case 0
    then show ?thesis
      by (simp add: world_at_0 map_classifyImage_Cons del: map_classifyImage.simps(2))
  next
    case (Suc j)
    with Cons.prems have "j < length us" by simp
    from Cons.IH [OF Cons.prems(1) this, of "w\<lparr>inferences := inferences w @ [u]\<rparr>"] s Suc
    show ?thesis
      by (simp add: world_at_Suc map_classifyImage_Cons del: map_classifyImage.simps(2))
  qed
qed

lemma map_classifyImage_fulfilled:
  assumes "classifier m = Some h"
  shows "\<forall>p \<in> set (fst (map_classifyImage env m w urls)). \<exists>v. fst p = Inr v"
proof -
  have "\<exists>v. fst (fst (map_classifyImage env m w urls) ! i) = Inr v"
    if "i < length urls" for i
    using map_classifyImage_nth [OF assms that, of env w]
      classifyImage_loaded_fulfilled [OF assms, of env "world_at w urls i" "urls ! i"]
    by auto
  then show ?thesis
    by (metis in_set_conv_nth map_classifyImage_length)
qed

lemma first_rejection_none:
  "\<forall>p \<in> set ps. \<exists>v. fst p = Inr v \<Longrightarrow> first_rejection ps = None"
  by (induction ps rule: first_rejection.induct) auto

lemma fulfilled_values_length:
  "\<forall>p \<in> set ps. \<exists>v. fst p = Inr v \<Longrightarrow> length (fulfilled_values ps) = length ps"
  by (induction ps rule: fulfilled_values.induct) auto

lemma fulfilled_values_nth:
  "\<forall>p \<in> set ps. \<exists>v. fst p = Inr v \<Longrightarrow> i < length ps \<Longrightarrow>
     Inr (fulfilled_values ps ! i) = fst (ps ! i)"
proof (induction ps arbitrary: i rule: fulfilled_values.induct)
  case 1
  then show ?case by simp
next
  case (2 v t ps)
  then show ?case by (cases i) auto
next
  case (3 e t ps)
  then show ?case by simp
qed

lemma promise_all_fulfilled:
  assumes "\<forall>p \<in> set ps. \<exists>v. fst p = Inr v"
  shows "fst (promise_all ps now) = Inr (fulfilled_values ps)"
  using first_rejection_none [OF assms] by (simp add: promise_all_def)

lemma classifyImageBatch_loaded:
  assumes "classifier m = Some h" and "urls \<noteq> []"
  shows "fst (fst (classifyImageBatch env m w urls)) =
     Inr (case fault env (w\<lparr>inferences := inferences w @ urls\<rparr>) of
            None \<Rightarrow> fulfilled_values (fst (map_classifyImage env m w urls))
          | Some e \<Rightarrow>
              map (\<lambda>u. \<lparr>isMeme = False, confidence = 0, inferenceTimeMs = 0\<rparr>) urls)"
proof -
  obtain ps w1 where ps: "map_classifyImage env m w urls = (ps, w1)"
    by (cases "map_classifyImage env m w urls")
  with map_classifyImage_world [OF assms(1), of env w urls]
  have w1: "w1 = w\<lparr>inferences := inferences w @ urls\<rparr>" by simp
  from ps map_classifyImage_fulfilled [OF assms(1), of env w urls]
  have "\<forall>p \<in> set ps. \<exists>v. fst p = Inr v" by simp
  then have pa: "fst (promise_all ps (clock w)) = Inr (fulfilled_values ps)"
    by (rule promise_all_fulfilled)
  obtain r t where rt: "promise_all ps (clock w) = (r, t)"
    by (cases "promise_all ps (clock w)")
  with pa have r: "r = Inr (fulfilled_values ps)" by simp
  show ?thesis
    using assms ps w1 rt r
    by (simp add: classifyImageBatch_def Let_def split: option.splits)
qed

text \<open>
  Claim C4. With a handle set and a non-empty input, the batch is fulfilled with a list as
  long as the input. Unless the wait fails, its \<open>i\<close>-th element is the value of the
  promise that \<open>classifyImage\<close> handed back for the \<open>i\<close>-th input, whatever the times at
  which the promises settle; if the wait fails, every element is the safe default.
\<close>

theorem classifyImageBatch_order_and_length:
  assumes "classifier m = Some h" and "urls \<noteq> []"
  shows "\<exists>results.
     fst (fst (classifyImageBatch env m w urls)) = Inr results \<and>
     length results = length urls \<and>
     (fault env (w\<lparr>inferences := inferences w @ urls\<rparr>) = None \<longrightarrow>
        (\<forall>i < length urls.
           Inr (results ! i) = fst (fst (classifyImage env m (world_at w urls i) (urls ! i))))) \<and>
     (fault env (w\<lparr>inferences := inferences w @ urls\<rparr>) \<noteq> None \<longrightarrow>
        results = replicate (length urls)
          \<lparr>isMeme = False, confidence = 0, inferenceTimeMs = 0\<rparr>)"
proof (cases "fault env (w\<lparr>inferences := inferences w @ urls\<rparr>)")
  case None
  let ?ps = "fst (map_classifyImage env m w urls)"
  have f: "\<forall>p \<in> set ?ps. \<exists>v. fst p = Inr v"
    using assms(1) by (rule map_classifyImage_fulfilled)
  have v: "fst (fst (classifyImageBatch env m w urls)) = Inr (fulfilled_values ?ps)"
    using classifyImageBatch_loaded [OF assms, of env w] None by simp
  have l: "length (fulfilled_values ?ps) = length urls"
    using fulfilled_values_length [OF f] by (simp add: map_classifyImage_length)
  have n: "Inr (fulfilled_values ?ps ! i)
      = fst (fst (classifyImage env m (world_at w urls i) (urls ! i)))"
    if "i < length urls" for i
    using fulfilled_values_nth [OF f, of i] that
      map_classifyImage_nth [OF assms(1) that, of env w]
    by (simp add: map_classifyImage_length)
  show ?thesis using v l n None by simp
next
  case (Some e)
  have "map (\<lambda>u. \<lparr>isMeme = False, confidence = 0, inferenceTimeMs = 0\<rparr>) urls
      = replicate (length urls) \<lparr>isMeme = False, confidence = 0, inferenceTimeMs = 0\<rparr>"
    by (simp add: map_replicate_const)
  then show ?thesis
    using classifyImageBatch_loaded [OF assms, of env w] Some by simp
qed

lemma demo_scores_decision:
  "determineMemeClassification demo_scores = \<lparr>isMeme = True, confidence = to_double 0.63\<rparr>"
  "length demo_scores = 2"
  by code_simp+

lemma demo_batch:
  "fst (fst (classifyImageBatch demo_backend loaded_module initial_world [''a'', ''b''])) =
     Inr [\<lparr>isMeme = False, confidence = 0, inferenceTimeMs = 3\<rparr>,
          \<lparr>isMeme = True, confidence = to_double 0.63, inferenceTimeMs = 2\<rparr>]"
  by (simp add: classifyImageBatch_def classifyImage_def promise_all_def demo_backend_def
      demo_invoke_def loaded_module_def initial_world_def demo_scores_decision fsub_examples
      Let_def)

theorem classifyImageBatch_order_and_length_witness:
  "classifier loaded_module = Some 7 \<and> [''a'', ''b''] \<noteq> [] \<and>
   fst (fst (classifyImageBatch demo_backend loaded_module initial_world [''a'', ''b''])) =
     Inr [\<lparr>isMeme = False, confidence = 0, inferenceTimeMs = 3\<rparr>,
          \<lparr>isMeme = True, confidence = to_double 0.63, inferenceTimeMs = 2\<rparr>] \<and>
   fst (fst (classifyImage demo_backend loaded_module
               (world_at initial_world [''a'', ''b''] 1) ''b'')) =
     Inr \<lparr>isMeme = True, confidence = to_double 0.63, inferenceTimeMs = 2\<rparr> \<and>
   fst (fst (classifyImageBatch faulty_backend loaded_module initial_world [''a'', ''b''])) =
     Inr [\<lparr>isMeme = False, confidence = 0, inferenceTimeMs = 0\<rparr>,
          \<lparr>isMeme = False, confidence = 0, inferenceTimeMs = 0\<rparr>]"
proof -
  have c: "classifier loaded_module = Some 7"
    by (simp add: loaded_module_def)
  have ne: "[''a'', ''b''] \<noteq> ([] :: string list)"
    by simp
  have nf: "fault demo_backend
      (initial_world\<lparr>inferences := inferences initial_world @ [''a'', ''b'']\<rparr>) = None"
    by (simp add: demo_backend_def)
  have ff: "fault faulty_backend
      (initial_world\<lparr>inferences := inferences initial_world @ [''a'', ''b'']\<rparr>) \<noteq> None"
    by (simp add: faulty_backend_def)
  from classifyImageBatch_order_and_length [OF c ne, of demo_backend initial_world] nf
  obtain results where
    r: "fst (fst (classifyImageBatch demo_backend loaded_module initial_world [''a'', ''b'']))
          = Inr results"
    and n: "\<forall>i < length [''a'', ''b''].
          Inr (results ! i) = fst (fst (classifyImage demo_backend loaded_module
            (world_at initial_world [''a'', ''b''] i) ([''a'', ''b''] ! i)))"
    by blast
  from r demo_batch have "results = [\<lparr>isMeme = False, confidence = 0, inferenceTimeMs = 3\<rparr>,
          \<lparr>isMeme = True, confidence = to_double 0.63, inferenceTimeMs = 2\<rparr>]"
    by simp
  with n [rule_format, of 1] have second: "fst (fst (classifyImage demo_backend loaded_module
               (world_at initial_world [''a'', ''b''] 1) ''b'')) =
     Inr \<lparr>isMeme = True, confidence = to_double 0.63, inferenceTimeMs = 2\<rparr>"
    by simp
  from classifyImageBatch_order_and_length [OF c ne, of faulty_backend initial_world] ff
  obtain defaults where
    "fst (fst (classifyImageBatch faulty_backend loaded_module initial_world [''a'', ''b'']))
          = Inr defaults"
    and "defaults = replicate (length [''a'', ''b''])
          \<lparr>isMeme = False, confidence = 0, inferenceTimeMs = 0\<rparr>"
    by blast
  then have third:
    "fst (fst (classifyImageBatch faulty_backend loaded_module initial_world [''a'', ''b''])) =
     Inr [\<lparr>isMeme = False, confidence = 0, inferenceTimeMs = 0\<rparr>,
          \<lparr>isMeme = False, confidence = 0, inferenceTimeMs = 0\<rparr>]"
    by (simp add: numeral_2_eq_2)
  show ?thesis
    using c demo_batch second third by simp
qed

text \<open>
  Claim C8, as amended. On the empty input the batch makes no inference call, and with a
  handle set it is fulfilled with the empty list, leaving the world as it was.
\<close>

theorem classifyImageBatch_empty_loaded:
  "inferences (snd (classifyImageBatch env m w [])) = inferences w \<and>
   (classifier m \<noteq> None \<longrightarrow> classifyImageBatch env m w [] = ((Inr [], clock w), w))"
  by (auto simp add: classifyImageBatch_def split: option.splits)

theorem classifyImageBatch_empty_loaded_witness:
  "classifier loaded_module \<noteq> None \<and>
   classifyImageBatch demo_backend loaded_module
       \<lparr>clock = 12, acquisitions = [WebGPU, Wasm], inferences = [''b'']\<rparr> [] =
     ((Inr [], 12), \<lparr>clock = 12, acquisitions = [WebGPU, Wasm], inferences = [''b'']\<rparr>)"
  using classifyImageBatch_empty_loaded [of demo_backend loaded_module
      "\<lparr>clock = 12, acquisitions = [WebGPU, Wasm], inferences = [''b'']\<rparr>"]
  by (simp add: loaded_module_def)

text \<open>
  The claim as first stated, without the handle, fails: a module that never loaded
  rejects the empty batch.
\<close>

theorem classifyImageBatch_empty_unloaded_counterexample:
  "fst (fst (classifyImageBatch demo_backend initial_module initial_world []))
     = Inl (JsError ''model not loaded. call loadModel() first.'') \<and>
   fst (fst (classifyImageBatch demo_backend initial_module initial_world [])) \<noteq> Inr []"
  by (simp add: classifyImageBatch_def initial_module_def ModelNotLoadedError_def)

text \<open>
  Claim C10. The handle is tested before the input: without a handle the batch rejects
  with the not-loaded error, on the empty input as on any other, instead of being
  fulfilled with the empty list.
\<close>

theorem classifyImageBatch_checks_model_first:
  "classifier m = None \<Longrightarrow>
     classifyImageBatch env m w [] = ((Inl ModelNotLoadedError, clock w), w) \<and>
     fst (fst (classifyImageBatch env m w [])) \<noteq> Inr [] \<and>
     fst (fst (classifyImageBatch env m w urls)) = Inl ModelNotLoadedError"
  by (simp add: classifyImageBatch_def)

theorem classifyImageBatch_checks_model_first_witness:
  "classifier failed_module = None \<and>
   classifyImageBatch dead_backend failed_module
       \<lparr>clock = 18, acquisitions = [WebGPU, Wasm], inferences = []\<rparr> [] =
     ((Inl (JsError ''model not loaded. call loadModel() first.''), 18),
      \<lparr>clock = 18, acquisitions = [WebGPU, Wasm], inferences = []\<rparr>)"
proof -
  have c: "classifier failed_module = None"
    by (simp add: failed_module_def)
  from classifyImageBatch_checks_model_first [OF c, of dead_backend
      "\<lparr>clock = 18, acquisitions = [WebGPU, Wasm], inferences = []\<rparr>"] c
  show ?thesis by (simp add: ModelNotLoadedError_def)
qed

end
